theory Spec2Isabelle
  imports Main "HOL-Library.Sublist"
begin

section \<open>Python values\<close>

text \<open>
  The values the two sensor platforms handle: \<open>None\<close>, numbers (meter readings, as
  unbounded integers), strings, and the \<open>datetime\<close> of a reading (a point in time, in
  seconds) with the \<open>timedelta\<close> that subtracting two of them gives.
\<close>

datatype pyval = PNone | PInt int | PStr string | PDateTime int | PTimeDelta int

datatype error = TypeError | KeyError

text \<open>Python's truth value of an object, as \<open>if value:\<close> tests it.\<close>

fun truthy :: "pyval \<Rightarrow> bool" where
  "truthy PNone = False"
| "truthy (PInt n) = (n \<noteq> 0)"
| "truthy (PStr s) = (s \<noteq> [])"
| "truthy (PDateTime t) = True"
| "truthy (PTimeDelta d) = (d \<noteq> 0)"

text \<open>\<open>a - b\<close>: defined on two numbers and on points in time; a TypeError otherwise.\<close>

fun py_sub :: "pyval \<Rightarrow> pyval \<Rightarrow> error + pyval" where
  "py_sub (PInt a) (PInt b) = Inr (PInt (a - b))"
| "py_sub (PDateTime a) (PDateTime b) = Inr (PTimeDelta (a - b))"
| "py_sub (PDateTime a) (PTimeDelta b) = Inr (PDateTime (a - b))"
| "py_sub (PTimeDelta a) (PTimeDelta b) = Inr (PTimeDelta (a - b))"
| "py_sub _ _ = Inl TypeError"

text \<open>\<open>a + b\<close> with a string on the right: concatenation, a TypeError on a non-string.\<close>

fun py_add_str :: "pyval \<Rightarrow> string \<Rightarrow> error + pyval" where
  "py_add_str (PStr a) b = Inr (PStr (a @ b))"
| "py_add_str _ b = Inl TypeError"

text \<open>
  Modelled from the spec: the constant \<open>STATE_UNKNOWN\<close> of \<open>homeassistant.const\<close>, which
  is not among the sources; the spec calls it the "unknown" sentinel.
\<close>

definition STATE_UNKNOWN :: pyval where
  "STATE_UNKNOWN = PStr ''unknown''"

section \<open>DSMR: entities reading the latest telegram\<close>

text \<open>
  A telegram is a dictionary from obis reference to the parsed object; the object's
  attributes (\<open>value\<close>, \<open>unit\<close>, and \<open>datetime\<close> on the objects that carry one) are read
  with \<open>getattr(dsmr_object, attribute, None)\<close>.
\<close>

type_synonym dsmr_object = "string \<rightharpoonup> pyval"

type_synonym telegram = "string \<rightharpoonup> dsmr_object"

definition getattr :: "dsmr_object \<Rightarrow> string \<Rightarrow> pyval" where
  "getattr dsmr_object attribute =
     (case dsmr_object attribute of None \<Rightarrow> PNone | Some v \<Rightarrow> v)"

text \<open>The instance attributes \<open>_name\<close>, \<open>_obis\<close>, \<open>telegram\<close> and \<open>_state\<close>.\<close>

record DSMREntity =
  p_name :: string
  p_obis :: string
  telegram :: telegram
  p_state :: pyval

text \<open>
  \<open>DerivativeDSMREntity\<close> adds \<open>_previous_reading\<close> and \<open>_previous_timestamp\<close>. Its
  class body also gives \<open>_state = STATE_UNKNOWN\<close>, an attribute of the class.
\<close>

record DerivativeDSMREntity = DSMREntity +
  p_previous_reading :: pyval
  p_previous_timestamp :: pyval

text \<open>\<open>DSMREntity.__init__\<close>; it assigns \<open>self._state = 10\<close>.\<close>

definition DSMREntity_init :: "string \<Rightarrow> string \<Rightarrow> DSMREntity" where
  "DSMREntity_init name obis =
     \<lparr>p_name = name, p_obis = obis, telegram = Map.empty, p_state = PInt 10\<rparr>"

text \<open>
  Constructing a \<open>DerivativeDSMREntity\<close> runs the inherited \<open>__init__\<close>: the instance
  attribute \<open>_state\<close> it assigns hides the class attribute \<open>_state = STATE_UNKNOWN\<close>,
  while \<open>_previous_reading\<close> and \<open>_previous_timestamp\<close> are read from the class
  (\<open>None\<close>) until first assigned.
\<close>

definition DerivativeDSMREntity_init :: "string \<Rightarrow> string \<Rightarrow> DerivativeDSMREntity" where
  "DerivativeDSMREntity_init name obis =
     DSMREntity.extend (DSMREntity_init name obis)
       (DerivativeDSMREntity.fields PNone PNone)"

definition get_dsmr_object_attr :: "'a DSMREntity_scheme \<Rightarrow> string \<Rightarrow> pyval" where
  "get_dsmr_object_attr self attribute =
     (case telegram self (p_obis self) of
        None \<Rightarrow> PNone
      | Some dsmr_object \<Rightarrow> getattr dsmr_object attribute)"

definition translate_tariff :: "pyval \<Rightarrow> pyval" where
  "translate_tariff v =
     (if v = PStr ''0002'' then PStr ''normal''
      else if v = PStr ''0001'' then PStr ''low''
      else STATE_UNKNOWN)"

text \<open>
  \<open>DSMREntity.state\<close>. The obis reference \<open>ELECTRICITY_ACTIVE_TARIFF\<close> comes from the
  \<open>dsmr_parser\<close> library and is a parameter here.
\<close>

definition DSMREntity_state :: "string \<Rightarrow> 'a DSMREntity_scheme \<Rightarrow> pyval" where
  "DSMREntity_state ELECTRICITY_ACTIVE_TARIFF self =
     (let v = get_dsmr_object_attr self ''value'' in
      if p_obis self = ELECTRICITY_ACTIVE_TARIFF then translate_tariff v
      else if truthy v then v
      else STATE_UNKNOWN)"

definition DSMREntity_unit_of_measurement :: "'a DSMREntity_scheme \<Rightarrow> pyval" where
  "DSMREntity_unit_of_measurement self = get_dsmr_object_attr self ''unit''"

text \<open>
  \<open>DerivativeDSMREntity.state\<close>: the value returned together with the entity as the
  evaluation leaves it. The subtraction comes before any assignment, so a TypeError
  leaves the entity as it was.
\<close>

definition DerivativeDSMREntity_state ::
  "DerivativeDSMREntity \<Rightarrow> error + (pyval \<times> DerivativeDSMREntity)" where
  "DerivativeDSMREntity_state self =
     (let timestamp = get_dsmr_object_attr self ''datetime'' in
      if truthy timestamp \<and> timestamp \<noteq> p_previous_timestamp self then
        (let current_reading = get_dsmr_object_attr self ''value'' in
         if p_previous_reading self = PNone then
           (let self1 = self\<lparr>p_previous_reading := current_reading,
                              p_previous_timestamp := timestamp\<rparr>
            in Inr (p_state self1, self1))
         else
           (case py_sub current_reading (p_previous_reading self) of
              Inl e \<Rightarrow> Inl e
            | Inr diff \<Rightarrow>
                (let self1 = self\<lparr>p_state := diff,
                                   p_previous_reading := current_reading,
                                   p_previous_timestamp := timestamp\<rparr>
                 in Inr (p_state self1, self1))))
      else Inr (p_state self, self))"

text \<open>
  \<open>DerivativeDSMREntity.unit_of_measurement\<close>; falling off the end of the function
  returns \<open>None\<close>.
\<close>

definition DerivativeDSMREntity_unit_of_measurement ::
  "DerivativeDSMREntity \<Rightarrow> error + pyval" where
  "DerivativeDSMREntity_unit_of_measurement self =
     (let unit = get_dsmr_object_attr self ''unit'' in
      if truthy unit then py_add_str unit ''/h'' else Inr PNone)"

text \<open>
  \<open>update_entities_telegram\<close> hands a new telegram to an entity, whose state is then
  read; \<open>read_states\<close> does so for a sequence of telegrams and collects the values
  returned.
\<close>

definition update_entity_telegram ::
  "telegram \<Rightarrow> DerivativeDSMREntity \<Rightarrow> DerivativeDSMREntity" where
  "update_entity_telegram tg device = device\<lparr>telegram := tg\<rparr>"

fun read_states :: "DerivativeDSMREntity \<Rightarrow> telegram list \<Rightarrow> error + pyval list" where
  "read_states device [] = Inr []"
| "read_states device (tg # tgs) =
     (case DerivativeDSMREntity_state (update_entity_telegram tg device) of
        Inl e \<Rightarrow> Inl e
      | Inr (v, device1) \<Rightarrow>
          (case read_states device1 tgs of
             Inl e \<Rightarrow> Inl e
           | Inr vs \<Rightarrow> Inr (v # vs)))"

text \<open>A telegram holding one timestamped reading in cubic metres under \<open>obis\<close>.\<close>

definition gas_telegram :: "string \<Rightarrow> int \<Rightarrow> int \<Rightarrow> telegram" where
  "gas_telegram obis t v =
     [obis \<mapsto> [''datetime'' \<mapsto> PDateTime t, ''value'' \<mapsto> PInt v, ''unit'' \<mapsto> PStr ''m3'']]"

section \<open>Rflink: sensors created from the packets of new devices\<close>

text \<open>A packet is a dictionary from field name to value.\<close>

type_synonym packet = "string \<rightharpoonup> pyval"

text \<open>
  The instance attributes of a \<open>RflinkSensor\<close>: \<open>_value_key\<close> and \<open>_unit\<close>, and the
  \<open>_device_id\<close> and \<open>_state\<close> that the base class \<open>RflinkDevice\<close> keeps.
\<close>

record RflinkSensor =
  r_device_id :: string
  r_value_key :: string
  r_unit :: string
  r_state :: pyval

text \<open>
  The module \<open>homeassistant.components.rflink\<close> and the entity base class are not among
  the sources. What the sensor platform uses of them is a parameter: \<open>serialize_id\<close>,
  the \<open>match_packet\<close> of an entity, the \<open>entity_id\<close> an entity reports, and the
  \<open>_state\<close> a new \<open>RflinkDevice\<close> starts with.
\<close>

record rflink =
  serialize_id :: "packet \<Rightarrow> string"
  match_packet :: "RflinkSensor \<Rightarrow> packet \<Rightarrow> RflinkSensor"
  entity_id :: "RflinkSensor \<Rightarrow> string"
  initial_state :: pyval

text \<open>The table of sensor keys and units, in the order the dictionary lists them.\<close>

definition SENSOR_KEYS_AND_UNITS :: "(string \<times> string) list" where
  "SENSOR_KEYS_AND_UNITS = [(''temperature'', [CHR 0xB0, CHR ''C'']), (''humidity'', ''%'')]"

text \<open>\<open>RflinkSensor.__init__\<close>, called as \<open>partial(RflinkSensor, device_id, hass)\<close>.\<close>

definition RflinkSensor_init :: "rflink \<Rightarrow> string \<Rightarrow> string \<Rightarrow> string \<Rightarrow> RflinkSensor" where
  "RflinkSensor_init rf device_id value_key unit =
     \<lparr>r_device_id = device_id, r_value_key = value_key, r_unit = unit,
      r_state = initial_state rf\<rparr>"

text \<open>\<open>RflinkSensor._handle_packet\<close>: \<open>packet[self._value_key]\<close> raises on a missing key.\<close>

definition handle_packet :: "RflinkSensor \<Rightarrow> packet \<Rightarrow> error + RflinkSensor" where
  "handle_packet self packet =
     (case packet (r_value_key self) of
        None \<Rightarrow> Inl KeyError
      | Some v \<Rightarrow> Inr (self\<lparr>r_state := v\<rparr>))"

definition RflinkSensor_unit_of_measurement :: "RflinkSensor \<Rightarrow> string" where
  "RflinkSensor_unit_of_measurement self = r_unit self"

definition RflinkSensor_state :: "RflinkSensor \<Rightarrow> pyval" where
  "RflinkSensor_state self = r_state self"

text \<open>
  What \<open>add_new_device\<close> reads and writes: the module-level list \<open>KNOWN_DEVICE_IDS\<close>;
  the calls of \<open>async_add_devices\<close>, each with the list of devices as it was passed;
  the entities registered so far, as they are now; the tracked entity ids of
  \<open>new_devices_group\<close> (\<open>None\<close> when no group is configured); and the number of calls of
  \<open>async_update_tracked_entity_ids\<close>.
\<close>

record handler_state =
  KNOWN_DEVICE_IDS :: "string list"
  async_add_devices_calls :: "RflinkSensor list list"
  entities :: "RflinkSensor list"
  new_devices_group :: "string list option"
  group_updates :: nat

text \<open>
  Modelled from the spec: \<open>async_add_devices\<close>, the entity registry that "accepts a batch
  of newly created Channels for exposure".
\<close>

definition async_add_devices :: "RflinkSensor list \<Rightarrow> handler_state \<Rightarrow> handler_state" where
  "async_add_devices devices s =
     s\<lparr>async_add_devices_calls := async_add_devices_calls s @ [devices],
       entities := entities s @ devices\<rparr>"

text \<open>
  Modelled from the spec: \<open>Group.async_update_tracked_entity_ids\<close> of
  \<open>homeassistant.components.group\<close>, the grouping service that accepts "membership
  updates (list of channel identifiers currently tracked)".
\<close>

definition async_update_tracked_entity_ids :: "string list \<Rightarrow> handler_state \<Rightarrow> handler_state" where
  "async_update_tracked_entity_ids entity_ids s =
     s\<lparr>new_devices_group := Some entity_ids, group_updates := Suc (group_updates s)\<rparr>"

text \<open>
  The loop \<open>for sensor_key, unit in SENSOR_KEYS_AND_UNITS.items()\<close> over the rest of the
  table, appending to \<open>devices\<close>.
\<close>

fun create_devices ::
  "(string \<Rightarrow> string \<Rightarrow> RflinkSensor) \<Rightarrow> packet \<Rightarrow> (string \<times> string) list
     \<Rightarrow> RflinkSensor list \<Rightarrow> RflinkSensor list" where
  "create_devices rflinksensor packet [] devices = devices"
| "create_devices rflinksensor packet ((sensor_key, unit) # items) devices =
     create_devices rflinksensor packet items
       (if sensor_key \<in> dom packet then devices @ [rflinksensor sensor_key unit]
        else devices)"

text \<open>
  \<open>add_new_device\<close>, the handler of one packet event. The devices that \<open>match_packet\<close>
  updates are the objects just registered, so the registered entities change with them.
\<close>

definition add_new_device :: "rflink \<Rightarrow> packet \<Rightarrow> handler_state \<Rightarrow> handler_state" where
  "add_new_device rf packet s =
     (let device_id = serialize_id rf packet in
      if device_id \<notin> set (KNOWN_DEVICE_IDS s) then
        (let s1 = s\<lparr>KNOWN_DEVICE_IDS := KNOWN_DEVICE_IDS s @ [device_id]\<rparr>;
             rflinksensor = RflinkSensor_init rf device_id;
             devices = create_devices rflinksensor packet SENSOR_KEYS_AND_UNITS [];
             s2 = async_add_devices devices s1;
             devices1 = map (\<lambda>device. match_packet rf device packet) devices;
             s3 = s2\<lparr>entities := entities s1 @ devices1\<rparr>
         in case new_devices_group s3 of
              None \<Rightarrow> s3
            | Some tracking \<Rightarrow>
                async_update_tracked_entity_ids
                  (tracking @ map (entity_id rf) devices1) s3)
      else s)"

text \<open>The handler run on a sequence of packet events, first to last.\<close>

fun add_new_devices :: "rflink \<Rightarrow> packet list \<Rightarrow> handler_state \<Rightarrow> handler_state" where
  "add_new_devices rf [] s = s"
| "add_new_devices rf (packet # packets) s =
     add_new_devices rf packets (add_new_device rf packet s)"

text \<open>
  The state after \<open>async_setup_platform\<close>: no device known, and a group with nothing
  tracked when \<open>new_devices_group\<close> is configured.
\<close>

definition setup_platform :: "bool \<Rightarrow> handler_state" where
  "setup_platform with_group =
     \<lparr>KNOWN_DEVICE_IDS = [], async_add_devices_calls = [], entities = [],
      new_devices_group = (if with_group then Some [] else None), group_updates = 0\<rparr>"

text \<open>
  A \<open>serialize_id\<close> for concrete runs: the packet's \<open>id\<close> field when it is a string.
\<close>

definition id_field :: "packet \<Rightarrow> string" where
  "id_field packet = (case packet ''id'' of Some (PStr s) \<Rightarrow> s | _ \<Rightarrow> [])"

text \<open>
  An instance of the parameters for concrete runs: \<open>match_packet\<close> hands the packet to
  \<open>_handle_packet\<close> when the sensor's key is in it, and \<open>entity_id\<close> is built from the
  device id and the key.
\<close>

definition example_rflink :: rflink where
  "example_rflink =
     \<lparr>serialize_id = id_field,
      match_packet = (\<lambda>device packet.
        case handle_packet device packet of Inl e \<Rightarrow> device | Inr device1 \<Rightarrow> device1),
      entity_id = (\<lambda>device. ''sensor.'' @ r_device_id device @ ''_'' @ r_value_key device),
      initial_state = STATE_UNKNOWN\<rparr>"

section \<open>Properties of the DSMR entities\<close>

lemma get_dsmr_object_attr_absent:
  "p_obis self \<notin> dom (telegram self) \<Longrightarrow> get_dsmr_object_attr self attribute = PNone"
  by (auto simp: get_dsmr_object_attr_def split: option.splits)

subsection \<open>The active-tariff entity\<close>

text \<open>
  C2. For the entity bound to the active-tariff reference, the state is \<open>low\<close> for the
  value \<open>0001\<close>, \<open>normal\<close> for the value \<open>0002\<close>, and the unknown sentinel for every
  other value; a telegram without the reference reads as \<open>None\<close> and gives the
  sentinel too.
\<close>

theorem tariff_translation:
  assumes "p_obis self = T"
  shows "(get_dsmr_object_attr self ''value'' = PStr ''0001'' \<longrightarrow> DSMREntity_state T self = PStr ''low'')
       \<and> (get_dsmr_object_attr self ''value'' = PStr ''0002'' \<longrightarrow> DSMREntity_state T self = PStr ''normal'')
       \<and> (get_dsmr_object_attr self ''value'' \<noteq> PStr ''0001'' \<and> get_dsmr_object_attr self ''value'' \<noteq> PStr ''0002''
            \<longrightarrow> DSMREntity_state T self = STATE_UNKNOWN)
       \<and> (T \<notin> dom (telegram self) \<longrightarrow> get_dsmr_object_attr self ''value'' = PNone \<and> DSMREntity_state T self = STATE_UNKNOWN)"
proof -
  have absent: "T \<notin> dom (telegram self) \<Longrightarrow> get_dsmr_object_attr self ''value'' = PNone"
    using assms get_dsmr_object_attr_absent [of self] by simp
  show ?thesis
    using assms absent
    by (auto simp: DSMREntity_state_def translate_tariff_def Let_def)
qed

theorem tariff_translation_witness:
  "DSMREntity_state ''96.14.0''
     ((DSMREntity_init ''Power Tariff'' ''96.14.0'')\<lparr>telegram := [''96.14.0'' \<mapsto> [''value'' \<mapsto> PStr ''0001'']]\<rparr>) = PStr ''low''
   \<and> DSMREntity_state ''96.14.0''
     ((DSMREntity_init ''Power Tariff'' ''96.14.0'')\<lparr>telegram := [''96.14.0'' \<mapsto> [''value'' \<mapsto> PStr ''0002'']]\<rparr>) = PStr ''normal''
   \<and> DSMREntity_state ''96.14.0''
     ((DSMREntity_init ''Power Tariff'' ''96.14.0'')\<lparr>telegram := [''96.14.0'' \<mapsto> [''value'' \<mapsto> PStr ''0003'']]\<rparr>) = PStr ''unknown''
   \<and> DSMREntity_state ''96.14.0'' (DSMREntity_init ''Power Tariff'' ''96.14.0'') = PStr ''unknown''"
  using tariff_translation [of "(DSMREntity_init ''Power Tariff'' ''96.14.0'')\<lparr>telegram := [''96.14.0'' \<mapsto> [''value'' \<mapsto> PStr ''0001'']]\<rparr>" "''96.14.0''"]
    tariff_translation [of "(DSMREntity_init ''Power Tariff'' ''96.14.0'')\<lparr>telegram := [''96.14.0'' \<mapsto> [''value'' \<mapsto> PStr ''0002'']]\<rparr>" "''96.14.0''"]
    tariff_translation [of "(DSMREntity_init ''Power Tariff'' ''96.14.0'')\<lparr>telegram := [''96.14.0'' \<mapsto> [''value'' \<mapsto> PStr ''0003'']]\<rparr>" "''96.14.0''"]
    tariff_translation [of "DSMREntity_init ''Power Tariff'' ''96.14.0''" "''96.14.0''"]
  by (simp add: DSMREntity_init_def get_dsmr_object_attr_def getattr_def STATE_UNKNOWN_def)

subsection \<open>A telegram without the entity's reference\<close>

text \<open>
  C3. When the stored telegram does not contain the reference of an entity that is not
  the tariff entity, its state is the unknown sentinel and its unit of measurement is
  \<open>None\<close>.
\<close>

theorem missing_identifier_unknown:
  assumes "p_obis self \<notin> dom (telegram self)" and "p_obis self \<noteq> T"
  shows "DSMREntity_state T self = STATE_UNKNOWN \<and> DSMREntity_unit_of_measurement self = PNone"
  using assms get_dsmr_object_attr_absent [of self]
  by (simp add: DSMREntity_state_def DSMREntity_unit_of_measurement_def Let_def)

theorem missing_identifier_unknown_witness:
  "DSMREntity_state ''96.14.0''
     ((DSMREntity_init ''Power Consumption'' ''1.7.0'')\<lparr>telegram := [''2.7.0'' \<mapsto> [''value'' \<mapsto> PInt 5, ''unit'' \<mapsto> PStr ''kW'']]\<rparr>) = PStr ''unknown''
   \<and> DSMREntity_unit_of_measurement
     ((DSMREntity_init ''Power Consumption'' ''1.7.0'')\<lparr>telegram := [''2.7.0'' \<mapsto> [''value'' \<mapsto> PInt 5, ''unit'' \<mapsto> PStr ''kW'']]\<rparr>) = PNone"
  using missing_identifier_unknown [of "(DSMREntity_init ''Power Consumption'' ''1.7.0'')\<lparr>telegram := [''2.7.0'' \<mapsto> [''value'' \<mapsto> PInt 5, ''unit'' \<mapsto> PStr ''kW'']]\<rparr>" "''96.14.0''"]
  by (simp add: DSMREntity_init_def STATE_UNKNOWN_def)

subsection \<open>A falsy value\<close>

text \<open>
  C9. When the telegram contains the reference of an entity that is not the tariff
  entity, but the value under it is falsy (the number \<open>0\<close>, the empty string), the
  state is the unknown sentinel and not that value.
\<close>

theorem falsy_value_unknown:
  assumes "p_obis self \<noteq> T"
    and "telegram self (p_obis self) = Some obj"
    and "obj ''value'' = Some v"
    and "\<not> truthy v"
  shows "DSMREntity_state T self = STATE_UNKNOWN"
  using assms
  by (simp add: DSMREntity_state_def get_dsmr_object_attr_def getattr_def Let_def)

theorem falsy_value_unknown_witness:
  "DSMREntity_state ''96.14.0''
     ((DSMREntity_init ''Power Production'' ''2.7.0'')\<lparr>telegram := [''2.7.0'' \<mapsto> [''value'' \<mapsto> PInt 0, ''unit'' \<mapsto> PStr ''kW'']]\<rparr>) = PStr ''unknown''
   \<and> DSMREntity_state ''96.14.0''
     ((DSMREntity_init ''Power Production'' ''2.7.0'')\<lparr>telegram := [''2.7.0'' \<mapsto> [''value'' \<mapsto> PStr []]]\<rparr>) = PStr ''unknown''"
  using falsy_value_unknown [of "(DSMREntity_init ''Power Production'' ''2.7.0'')\<lparr>telegram := [''2.7.0'' \<mapsto> [''value'' \<mapsto> PInt 0, ''unit'' \<mapsto> PStr ''kW'']]\<rparr>"
      "''96.14.0''" "[''value'' \<mapsto> PInt 0, ''unit'' \<mapsto> PStr ''kW'']" "PInt 0"]
    falsy_value_unknown [of "(DSMREntity_init ''Power Production'' ''2.7.0'')\<lparr>telegram := [''2.7.0'' \<mapsto> [''value'' \<mapsto> PStr []]]\<rparr>"
      "''96.14.0''" "[''value'' \<mapsto> PStr []]" "PStr []"]
  by (simp add: DSMREntity_init_def STATE_UNKNOWN_def)

subsection \<open>When the derivative entity changes\<close>

text \<open>
  C4. When the timestamp read from the telegram is absent or equals the stored previous
  timestamp, reading the state of a derivative entity returns the stored state and
  leaves the entity as it was. Whenever a reading changes the previous reading, the
  previous timestamp or the stored state, the timestamp was present and differed from
  the stored one.
\<close>

theorem derivative_state_frame:
  "(get_dsmr_object_attr self ''datetime'' = PNone
      \<or> get_dsmr_object_attr self ''datetime'' = p_previous_timestamp self
    \<longrightarrow> DerivativeDSMREntity_state self = Inr (p_state self, self))
   \<and> (\<forall>v self1. DerivativeDSMREntity_state self = Inr (v, self1)
         \<and> (p_previous_reading self1, p_previous_timestamp self1, p_state self1)
             \<noteq> (p_previous_reading self, p_previous_timestamp self, p_state self)
       \<longrightarrow> get_dsmr_object_attr self ''datetime'' \<noteq> PNone
           \<and> get_dsmr_object_attr self ''datetime'' \<noteq> p_previous_timestamp self)"
proof (intro conjI allI impI)
  assume "get_dsmr_object_attr self ''datetime'' = PNone
      \<or> get_dsmr_object_attr self ''datetime'' = p_previous_timestamp self"
  then show "DerivativeDSMREntity_state self = Inr (p_state self, self)"
    by (auto simp: DerivativeDSMREntity_state_def Let_def)
next
  fix v self1
  assume h: "DerivativeDSMREntity_state self = Inr (v, self1)
         \<and> (p_previous_reading self1, p_previous_timestamp self1, p_state self1)
             \<noteq> (p_previous_reading self, p_previous_timestamp self, p_state self)"
  show "get_dsmr_object_attr self ''datetime'' \<noteq> PNone"
  proof
    assume "get_dsmr_object_attr self ''datetime'' = PNone"
    then have "DerivativeDSMREntity_state self = Inr (p_state self, self)"
      by (simp add: DerivativeDSMREntity_state_def Let_def)
    with h show False by auto
  qed
  show "get_dsmr_object_attr self ''datetime'' \<noteq> p_previous_timestamp self"
  proof
    assume "get_dsmr_object_attr self ''datetime'' = p_previous_timestamp self"
    then have "DerivativeDSMREntity_state self = Inr (p_state self, self)"
      by (simp add: DerivativeDSMREntity_state_def Let_def)
    with h show False by auto
  qed
qed

theorem derivative_state_frame_witness:
  "DerivativeDSMREntity_state
     ((DerivativeDSMREntity_init ''Hourly Gas Consumption'' ''24.2.1'')
        \<lparr>telegram := [''24.2.1'' \<mapsto> [''value'' \<mapsto> PInt 130]], p_state := PInt 30,
          p_previous_reading := PInt 130, p_previous_timestamp := PDateTime 2\<rparr>)
   = Inr (PInt 30, (DerivativeDSMREntity_init ''Hourly Gas Consumption'' ''24.2.1'')
        \<lparr>telegram := [''24.2.1'' \<mapsto> [''value'' \<mapsto> PInt 130]], p_state := PInt 30,
          p_previous_reading := PInt 130, p_previous_timestamp := PDateTime 2\<rparr>)
   \<and> DerivativeDSMREntity_state
     ((DerivativeDSMREntity_init ''Hourly Gas Consumption'' ''24.2.1'')
        \<lparr>telegram := gas_telegram ''24.2.1'' 2 130, p_state := PInt 30,
          p_previous_reading := PInt 130, p_previous_timestamp := PDateTime 2\<rparr>)
   = Inr (PInt 30, (DerivativeDSMREntity_init ''Hourly Gas Consumption'' ''24.2.1'')
        \<lparr>telegram := gas_telegram ''24.2.1'' 2 130, p_state := PInt 30,
          p_previous_reading := PInt 130, p_previous_timestamp := PDateTime 2\<rparr>)
   \<and> DerivativeDSMREntity_state
     ((DerivativeDSMREntity_init ''Hourly Gas Consumption'' ''24.2.1'')
        \<lparr>telegram := gas_telegram ''24.2.1'' 3 125, p_state := PInt 30,
          p_previous_reading := PInt 130, p_previous_timestamp := PDateTime 2\<rparr>)
   = Inr (PInt (- 5), (DerivativeDSMREntity_init ''Hourly Gas Consumption'' ''24.2.1'')
        \<lparr>telegram := gas_telegram ''24.2.1'' 3 125, p_state := PInt (- 5),
          p_previous_reading := PInt 125, p_previous_timestamp := PDateTime 3\<rparr>)
   \<and> get_dsmr_object_attr
     ((DerivativeDSMREntity_init ''Hourly Gas Consumption'' ''24.2.1'')
        \<lparr>telegram := gas_telegram ''24.2.1'' 3 125, p_state := PInt 30,
          p_previous_reading := PInt 130, p_previous_timestamp := PDateTime 2\<rparr>) ''datetime''
     = PDateTime 3"
  using derivative_state_frame [of "(DerivativeDSMREntity_init ''Hourly Gas Consumption'' ''24.2.1'')
        \<lparr>telegram := [''24.2.1'' \<mapsto> [''value'' \<mapsto> PInt 130]], p_state := PInt 30,
          p_previous_reading := PInt 130, p_previous_timestamp := PDateTime 2\<rparr>"]
    derivative_state_frame [of "(DerivativeDSMREntity_init ''Hourly Gas Consumption'' ''24.2.1'')
        \<lparr>telegram := gas_telegram ''24.2.1'' 2 130, p_state := PInt 30,
          p_previous_reading := PInt 130, p_previous_timestamp := PDateTime 2\<rparr>"]
  by (simp add: get_dsmr_object_attr_def getattr_def gas_telegram_def
      DerivativeDSMREntity_state_def Let_def
      DerivativeDSMREntity_init_def DSMREntity_init_def DSMREntity.extend_def DerivativeDSMREntity.fields_def)

subsection \<open>The unit of the derivative entity\<close>

text \<open>
  C5. The unit of measurement of a derivative entity is the unit of the telegram with
  \<open>/h\<close> appended when that unit is present (a non-empty string: \<open>m3\<close> gives \<open>m3/h\<close>),
  and \<open>None\<close> when it is absent.
\<close>

theorem derivative_unit:
  "(\<forall>u. get_dsmr_object_attr self ''unit'' = PStr u \<and> u \<noteq> []
        \<longrightarrow> DerivativeDSMREntity_unit_of_measurement self = Inr (PStr (u @ ''/h'')))
   \<and> (get_dsmr_object_attr self ''unit'' = PNone
        \<longrightarrow> DerivativeDSMREntity_unit_of_measurement self = Inr PNone)"
  by (simp add: DerivativeDSMREntity_unit_of_measurement_def Let_def)

theorem derivative_unit_witness:
  "DerivativeDSMREntity_unit_of_measurement
     (update_entity_telegram (gas_telegram ''24.2.1'' 1 100)
        (DerivativeDSMREntity_init ''Hourly Gas Consumption'' ''24.2.1'')) = Inr (PStr ''m3/h'')
   \<and> DerivativeDSMREntity_unit_of_measurement
     (update_entity_telegram [''24.2.1'' \<mapsto> [''value'' \<mapsto> PInt 100]]
        (DerivativeDSMREntity_init ''Hourly Gas Consumption'' ''24.2.1'')) = Inr PNone
   \<and> DerivativeDSMREntity_unit_of_measurement
        (DerivativeDSMREntity_init ''Hourly Gas Consumption'' ''24.2.1'') = Inr PNone"
  using derivative_unit [of "update_entity_telegram (gas_telegram ''24.2.1'' 1 100)
        (DerivativeDSMREntity_init ''Hourly Gas Consumption'' ''24.2.1'')"]
    derivative_unit [of "update_entity_telegram [''24.2.1'' \<mapsto> [''value'' \<mapsto> PInt 100]]
        (DerivativeDSMREntity_init ''Hourly Gas Consumption'' ''24.2.1'')"]
    derivative_unit [of "DerivativeDSMREntity_init ''Hourly Gas Consumption'' ''24.2.1''"]
  by (simp add: get_dsmr_object_attr_def getattr_def gas_telegram_def update_entity_telegram_def
      DerivativeDSMREntity_init_def DSMREntity_init_def DSMREntity.extend_def DerivativeDSMREntity.fields_def)

subsection \<open>The derivative entity on five readings\<close>

text \<open>
  C1. A derivative entity as its constructor leaves it receives the readings
  \<open>(T1, 100)\<close>, \<open>(T1, 100)\<close>, \<open>(T2, 130)\<close>, \<open>(T2, 130)\<close>, \<open>(T3, 125)\<close> and its state is
  read after each. The values read are \<open>10\<close>, \<open>10\<close>, \<open>30\<close>, \<open>30\<close>, \<open>-5\<close>: the first
  reading only stores the baseline and a repeated timestamp changes nothing, yet what is
  returned before any difference exists is the \<open>10\<close> that \<open>__init__\<close> assigned to
  \<open>_state\<close>, not the unknown sentinel of the class attribute.
\<close>

theorem derivative_readings_from_init:
  "read_states (DerivativeDSMREntity_init ''Hourly Gas Consumption'' ''24.2.1'')
     [gas_telegram ''24.2.1'' 1 100, gas_telegram ''24.2.1'' 1 100,
      gas_telegram ''24.2.1'' 2 130, gas_telegram ''24.2.1'' 2 130,
      gas_telegram ''24.2.1'' 3 125]
   = Inr [PInt 10, PInt 10, PInt 30, PInt 30, PInt (- 5)]"
  by (simp add: DerivativeDSMREntity_init_def DSMREntity_init_def DSMREntity.extend_def
      DerivativeDSMREntity.fields_def DerivativeDSMREntity_state_def get_dsmr_object_attr_def
      update_entity_telegram_def gas_telegram_def getattr_def Let_def)

section \<open>Properties of the Rflink packet handler\<close>

lemma create_devices_keys:
  "map (\<lambda>d. (r_value_key d, r_unit d)) (create_devices (RflinkSensor_init rf i) packet items devices)
   = map (\<lambda>d. (r_value_key d, r_unit d)) devices @ filter (\<lambda>(k, u). k \<in> dom packet) items"
proof (induction items arbitrary: devices)
  case Nil
  show ?case by simp
next
  case (Cons item items)
  obtain k u where item: "item = (k, u)" by (cases item)
  show ?case
  proof (cases "k \<in> dom packet")
    case True
    then show ?thesis
      using Cons.IH [of "devices @ [RflinkSensor_init rf i k u]"] item
      by (simp add: RflinkSensor_init_def)
  next
    case False
    then show ?thesis using Cons.IH [of devices] item by simp
  qed
qed

lemma create_devices_ids:
  "d \<in> set (create_devices (RflinkSensor_init rf i) packet items devices)
   \<Longrightarrow> d \<in> set devices \<or> r_device_id d = i"
proof (induction items arbitrary: devices)
  case Nil
  then show ?case by simp
next
  case (Cons item items)
  obtain k u where item: "item = (k, u)" by (cases item)
  show ?case
  proof (cases "k \<in> dom packet")
    case True
    with Cons.prems item
    have "d \<in> set (create_devices (RflinkSensor_init rf i) packet items
        (devices @ [RflinkSensor_init rf i k u]))"
      by simp
    then have "d \<in> set (devices @ [RflinkSensor_init rf i k u]) \<or> r_device_id d = i"
      by (rule Cons.IH)
    then show ?thesis by (auto simp: RflinkSensor_init_def)
  next
    case False
    with Cons.prems item
    have "d \<in> set (create_devices (RflinkSensor_init rf i) packet items devices)"
      by simp
    then show ?thesis by (rule Cons.IH)
  qed
qed

lemma known_after_new:
  "serialize_id rf packet \<notin> set (KNOWN_DEVICE_IDS s)
   \<Longrightarrow> KNOWN_DEVICE_IDS (add_new_device rf packet s) = KNOWN_DEVICE_IDS s @ [serialize_id rf packet]"
  by (simp add: add_new_device_def Let_def async_add_devices_def
      async_update_tracked_entity_ids_def split: option.splits)

lemma add_new_device_known:
  "serialize_id rf packet \<in> set (KNOWN_DEVICE_IDS s) \<Longrightarrow> add_new_device rf packet s = s"
  by (simp add: add_new_device_def)

lemma known_step_prefix:
  "prefix (KNOWN_DEVICE_IDS s) (KNOWN_DEVICE_IDS (add_new_device rf packet s))"
  by (cases "serialize_id rf packet \<in> set (KNOWN_DEVICE_IDS s)")
     (simp_all add: add_new_device_known known_after_new)

lemma known_run_prefix:
  "prefix (KNOWN_DEVICE_IDS s) (KNOWN_DEVICE_IDS (add_new_devices rf packets s))"
proof (induction packets arbitrary: s)
  case Nil
  show ?case by simp
next
  case (Cons packet packets)
  have "prefix (KNOWN_DEVICE_IDS s) (KNOWN_DEVICE_IDS (add_new_device rf packet s))"
    by (rule known_step_prefix)
  also have "prefix \<dots> (KNOWN_DEVICE_IDS (add_new_devices rf packets (add_new_device rf packet s)))"
    by (rule Cons.IH)
  finally show ?case by simp
qed

lemma id_known_after_step:
  "serialize_id rf packet \<in> set (KNOWN_DEVICE_IDS (add_new_device rf packet s))"
  by (cases "serialize_id rf packet \<in> set (KNOWN_DEVICE_IDS s)")
     (simp_all add: add_new_device_known known_after_new)

lemma id_stays_known:
  "i \<in> set (KNOWN_DEVICE_IDS s) \<Longrightarrow> i \<in> set (KNOWN_DEVICE_IDS (add_new_devices rf packets s))"
  using known_run_prefix [of s rf packets] set_mono_prefix by blast

lemmas rflink_eval = add_new_device_def Let_def async_add_devices_def async_update_tracked_entity_ids_def
  example_rflink_def id_field_def setup_platform_def SENSOR_KEYS_AND_UNITS_def RflinkSensor_init_def
  handle_packet_def STATE_UNKNOWN_def

subsection \<open>A device already known\<close>

text \<open>
  C6. A packet whose device id is already in \<open>KNOWN_DEVICE_IDS\<close> leaves everything as
  it was: no call of \<open>async_add_devices\<close>, no new entity, no update of the group. So
  once a packet of a device has been handled, whatever packets came in between, a
  further packet with the same device id changes nothing.
\<close>

theorem known_device_creates_nothing:
  "(serialize_id rf packet \<in> set (KNOWN_DEVICE_IDS s) \<longrightarrow> add_new_device rf packet s = s)
   \<and> (\<forall>packet1 packets. serialize_id rf packet1 = serialize_id rf packet \<longrightarrow>
        add_new_device rf packet (add_new_devices rf (packet1 # packets) s)
          = add_new_devices rf (packet1 # packets) s)"
proof (intro conjI allI impI)
  assume "serialize_id rf packet \<in> set (KNOWN_DEVICE_IDS s)"
  then show "add_new_device rf packet s = s" by (rule add_new_device_known)
next
  fix packet1 packets
  assume same: "serialize_id rf packet1 = serialize_id rf packet"
  have "serialize_id rf packet \<in> set (KNOWN_DEVICE_IDS (add_new_device rf packet1 s))"
    using id_known_after_step [of rf packet1 s] same by simp
  then have "serialize_id rf packet
      \<in> set (KNOWN_DEVICE_IDS (add_new_devices rf packets (add_new_device rf packet1 s)))"
    by (rule id_stays_known)
  then show "add_new_device rf packet (add_new_devices rf (packet1 # packets) s)
      = add_new_devices rf (packet1 # packets) s"
    by (simp add: add_new_device_known)
qed

theorem known_device_creates_nothing_witness:
  "add_new_device example_rflink [''id'' \<mapsto> PStr ''a1'', ''temperature'' \<mapsto> PInt 21]
     (add_new_devices example_rflink [[''id'' \<mapsto> PStr ''a1'', ''humidity'' \<mapsto> PInt 40]]
        (setup_platform True))
   = add_new_devices example_rflink [[''id'' \<mapsto> PStr ''a1'', ''humidity'' \<mapsto> PInt 40]]
        (setup_platform True)
   \<and> KNOWN_DEVICE_IDS (add_new_devices example_rflink
        [[''id'' \<mapsto> PStr ''a1'', ''humidity'' \<mapsto> PInt 40]] (setup_platform True)) = [''a1'']"
  using known_device_creates_nothing [of example_rflink
      "[''id'' \<mapsto> PStr ''a1'', ''temperature'' \<mapsto> PInt 21]" "setup_platform True",
      THEN conjunct2, rule_format,
      of "[''id'' \<mapsto> PStr ''a1'', ''humidity'' \<mapsto> PInt 40]" "[]"]
  by (simp add: rflink_eval)

subsection \<open>The sensors created for a new device\<close>

text \<open>
  C7. For a packet whose device id is not yet known, \<open>async_add_devices\<close> is called once,
  with one sensor for each entry of \<open>SENSOR_KEYS_AND_UNITS\<close> whose key is in the
  packet, in the order of the table, bound to that key and its unit and to the device
  id; no key occurs twice, a key of the table absent from the packet gives no sensor,
  and other keys of the packet give none.
\<close>

theorem new_device_channels:
  assumes "serialize_id rf packet \<notin> set (KNOWN_DEVICE_IDS s)"
  shows "\<exists>devices.
      async_add_devices_calls (add_new_device rf packet s) = async_add_devices_calls s @ [devices]
    \<and> map (\<lambda>d. (r_value_key d, r_unit d)) devices
        = filter (\<lambda>(k, u). k \<in> dom packet) SENSOR_KEYS_AND_UNITS
    \<and> distinct (map r_value_key devices)
    \<and> (\<forall>d \<in> set devices. r_device_id d = serialize_id rf packet
          \<and> RflinkSensor_unit_of_measurement d = r_unit d)
    \<and> length (entities (add_new_device rf packet s)) = length (entities s) + length devices"
proof -
  let ?devices = "create_devices (RflinkSensor_init rf (serialize_id rf packet)) packet
      SENSOR_KEYS_AND_UNITS []"
  have calls: "async_add_devices_calls (add_new_device rf packet s)
      = async_add_devices_calls s @ [?devices]"
    using assms
    by (simp add: add_new_device_def Let_def async_add_devices_def
        async_update_tracked_entity_ids_def split: option.splits)
  have keys: "map (\<lambda>d. (r_value_key d, r_unit d)) ?devices
      = filter (\<lambda>(k, u). k \<in> dom packet) SENSOR_KEYS_AND_UNITS"
    using create_devices_keys [of rf "serialize_id rf packet" packet SENSOR_KEYS_AND_UNITS "[]"]
    by simp
  have "map r_value_key ?devices = map fst (map (\<lambda>d. (r_value_key d, r_unit d)) ?devices)"
    by simp
  also have "\<dots> = map fst (filter (\<lambda>(k, u). k \<in> dom packet) SENSOR_KEYS_AND_UNITS)"
    by (simp only: keys)
  finally have dist: "distinct (map r_value_key ?devices)"
    by (simp add: SENSOR_KEYS_AND_UNITS_def)
  have ids: "\<forall>d \<in> set ?devices. r_device_id d = serialize_id rf packet
      \<and> RflinkSensor_unit_of_measurement d = r_unit d"
    using create_devices_ids [of _ rf "serialize_id rf packet" packet SENSOR_KEYS_AND_UNITS "[]"]
    by (auto simp: RflinkSensor_unit_of_measurement_def)
  have len: "length (entities (add_new_device rf packet s)) = length (entities s) + length ?devices"
    using assms
    by (simp add: add_new_device_def Let_def async_add_devices_def
        async_update_tracked_entity_ids_def split: option.splits)
  from calls keys dist ids len show ?thesis by blast
qed

theorem new_device_channels_witness:
  "async_add_devices_calls (add_new_device example_rflink
       [''id'' \<mapsto> PStr ''a1'', ''humidity'' \<mapsto> PInt 40, ''battery'' \<mapsto> PStr ''ok'']
       (setup_platform False))
   = [[\<lparr>r_device_id = ''a1'', r_value_key = ''humidity'', r_unit = ''%'',
        r_state = PStr ''unknown''\<rparr>]]
   \<and> (\<exists>devices. async_add_devices_calls (add_new_device example_rflink
       [''id'' \<mapsto> PStr ''a1'', ''humidity'' \<mapsto> PInt 40, ''battery'' \<mapsto> PStr ''ok'']
       (setup_platform False)) = [devices]
        \<and> map (\<lambda>d. (r_value_key d, r_unit d)) devices = [(''humidity'', ''%'')])"
  using new_device_channels [of example_rflink
      "[''id'' \<mapsto> PStr ''a1'', ''humidity'' \<mapsto> PInt 40, ''battery'' \<mapsto> PStr ''ok'']"
      "setup_platform False"]
  by (simp add: rflink_eval)

subsection \<open>The list of known device ids only grows\<close>

text \<open>
  C8. One run of the handler leaves \<open>KNOWN_DEVICE_IDS\<close> as it was or appends one id
  that was not in it; over any sequence of packets the list before is a prefix of the
  list after, so no id is ever removed.
\<close>

theorem known_ids_append_only:
  "(KNOWN_DEVICE_IDS (add_new_device rf packet s) = KNOWN_DEVICE_IDS s
     \<or> (\<exists>i. i \<notin> set (KNOWN_DEVICE_IDS s)
          \<and> KNOWN_DEVICE_IDS (add_new_device rf packet s) = KNOWN_DEVICE_IDS s @ [i]))
   \<and> prefix (KNOWN_DEVICE_IDS s) (KNOWN_DEVICE_IDS (add_new_devices rf packets s))
   \<and> set (KNOWN_DEVICE_IDS s) \<subseteq> set (KNOWN_DEVICE_IDS (add_new_devices rf packets s))"
proof (intro conjI)
  show "KNOWN_DEVICE_IDS (add_new_device rf packet s) = KNOWN_DEVICE_IDS s
     \<or> (\<exists>i. i \<notin> set (KNOWN_DEVICE_IDS s)
          \<and> KNOWN_DEVICE_IDS (add_new_device rf packet s) = KNOWN_DEVICE_IDS s @ [i])"
  proof (cases "serialize_id rf packet \<in> set (KNOWN_DEVICE_IDS s)")
    case True
    then show ?thesis by (simp add: add_new_device_known)
  next
    case False
    then show ?thesis using known_after_new [of rf packet s] by blast
  qed
  show "prefix (KNOWN_DEVICE_IDS s) (KNOWN_DEVICE_IDS (add_new_devices rf packets s))"
    by (rule known_run_prefix)
  then show "set (KNOWN_DEVICE_IDS s) \<subseteq> set (KNOWN_DEVICE_IDS (add_new_devices rf packets s))"
    by (rule set_mono_prefix)
qed

theorem known_ids_append_only_witness:
  "KNOWN_DEVICE_IDS (add_new_device example_rflink [''id'' \<mapsto> PStr ''b2'']
       (add_new_device example_rflink [''id'' \<mapsto> PStr ''a1''] (setup_platform False)))
     = KNOWN_DEVICE_IDS (add_new_device example_rflink [''id'' \<mapsto> PStr ''a1'']
         (setup_platform False)) @ [''b2'']
   \<and> prefix (KNOWN_DEVICE_IDS (add_new_device example_rflink [''id'' \<mapsto> PStr ''a1'']
         (setup_platform False)))
       (KNOWN_DEVICE_IDS (add_new_devices example_rflink
         [[''id'' \<mapsto> PStr ''b2''], [''id'' \<mapsto> PStr ''a1'']]
         (add_new_device example_rflink [''id'' \<mapsto> PStr ''a1''] (setup_platform False))))"
  using known_ids_append_only [of example_rflink "[''id'' \<mapsto> PStr ''b2'']"
      "add_new_device example_rflink [''id'' \<mapsto> PStr ''a1''] (setup_platform False)"
      "[[''id'' \<mapsto> PStr ''b2''], [''id'' \<mapsto> PStr ''a1'']]"]
  by (simp add: rflink_eval)

subsection \<open>A new device without a recognised key\<close>

text \<open>
  C10. When the first packet of a device contains no key of \<open>SENSOR_KEYS_AND_UNITS\<close>,
  the device id is added to \<open>KNOWN_DEVICE_IDS\<close> all the same, \<open>async_add_devices\<close> is
  called with no device and the entities stay as they were; after that, whatever
  packets follow, a packet with this device id changes nothing, so no sensor is ever
  created for it.
\<close>

theorem unrecognized_device_locked_out:
  assumes "serialize_id rf packet \<notin> set (KNOWN_DEVICE_IDS s)"
    and "\<forall>k \<in> set (map fst SENSOR_KEYS_AND_UNITS). k \<notin> dom packet"
  shows "serialize_id rf packet \<in> set (KNOWN_DEVICE_IDS (add_new_device rf packet s))
    \<and> async_add_devices_calls (add_new_device rf packet s) = async_add_devices_calls s @ [[]]
    \<and> entities (add_new_device rf packet s) = entities s
    \<and> (\<forall>packets later. serialize_id rf later = serialize_id rf packet \<longrightarrow>
         add_new_device rf later (add_new_devices rf packets (add_new_device rf packet s))
           = add_new_devices rf packets (add_new_device rf packet s))"
proof (intro conjI allI impI)
  show known: "serialize_id rf packet \<in> set (KNOWN_DEVICE_IDS (add_new_device rf packet s))"
    by (rule id_known_after_step)
  have none: "create_devices (RflinkSensor_init rf (serialize_id rf packet)) packet
      SENSOR_KEYS_AND_UNITS [] = []"
    using assms(2) by (simp add: SENSOR_KEYS_AND_UNITS_def)
  show "async_add_devices_calls (add_new_device rf packet s) = async_add_devices_calls s @ [[]]"
    using assms(1) none
    by (simp add: add_new_device_def Let_def async_add_devices_def
        async_update_tracked_entity_ids_def split: option.splits)
  show "entities (add_new_device rf packet s) = entities s"
    using assms(1) none
    by (simp add: add_new_device_def Let_def async_add_devices_def
        async_update_tracked_entity_ids_def split: option.splits)
  fix packets later
  assume "serialize_id rf later = serialize_id rf packet"
  with known have "serialize_id rf later
      \<in> set (KNOWN_DEVICE_IDS (add_new_devices rf packets (add_new_device rf packet s)))"
    by (simp add: id_stays_known)
  then show "add_new_device rf later (add_new_devices rf packets (add_new_device rf packet s))
      = add_new_devices rf packets (add_new_device rf packet s)"
    by (rule add_new_device_known)
qed

theorem unrecognized_device_locked_out_witness:
  "KNOWN_DEVICE_IDS (add_new_device example_rflink
       [''id'' \<mapsto> PStr ''c3'', ''battery'' \<mapsto> PStr ''ok''] (setup_platform True)) = [''c3'']
   \<and> async_add_devices_calls (add_new_device example_rflink
       [''id'' \<mapsto> PStr ''c3'', ''battery'' \<mapsto> PStr ''ok''] (setup_platform True)) = [[]]
   \<and> entities (add_new_device example_rflink
       [''id'' \<mapsto> PStr ''c3'', ''temperature'' \<mapsto> PInt 21]
       (add_new_devices example_rflink []
         (add_new_device example_rflink
           [''id'' \<mapsto> PStr ''c3'', ''battery'' \<mapsto> PStr ''ok''] (setup_platform True)))) = []"
proof -
  have new: "serialize_id example_rflink [''id'' \<mapsto> PStr ''c3'', ''battery'' \<mapsto> PStr ''ok'']
      \<notin> set (KNOWN_DEVICE_IDS (setup_platform True))"
    by (simp add: setup_platform_def)
  have nokey: "\<forall>k \<in> set (map fst SENSOR_KEYS_AND_UNITS).
      k \<notin> dom [''id'' \<mapsto> PStr ''c3'', ''battery'' \<mapsto> PStr ''ok'']"
    by (simp add: SENSOR_KEYS_AND_UNITS_def)
  have same: "serialize_id example_rflink [''id'' \<mapsto> PStr ''c3'', ''temperature'' \<mapsto> PInt 21]
      = serialize_id example_rflink [''id'' \<mapsto> PStr ''c3'', ''battery'' \<mapsto> PStr ''ok'']"
    by (simp add: example_rflink_def id_field_def)
  note r = unrecognized_device_locked_out [OF new nokey]
  from r have "add_new_device example_rflink
       [''id'' \<mapsto> PStr ''c3'', ''temperature'' \<mapsto> PInt 21]
       (add_new_devices example_rflink []
         (add_new_device example_rflink
           [''id'' \<mapsto> PStr ''c3'', ''battery'' \<mapsto> PStr ''ok''] (setup_platform True)))
     = add_new_devices example_rflink []
         (add_new_device example_rflink
           [''id'' \<mapsto> PStr ''c3'', ''battery'' \<mapsto> PStr ''ok''] (setup_platform True))"
    using same by blast
  moreover from r have "entities (add_new_device example_rflink
           [''id'' \<mapsto> PStr ''c3'', ''battery'' \<mapsto> PStr ''ok''] (setup_platform True))
      = entities (setup_platform True)"
    by blast
  moreover from r have "async_add_devices_calls (add_new_device example_rflink
       [''id'' \<mapsto> PStr ''c3'', ''battery'' \<mapsto> PStr ''ok''] (setup_platform True))
      = async_add_devices_calls (setup_platform True) @ [[]]"
    by blast
  moreover have "KNOWN_DEVICE_IDS (add_new_device example_rflink
       [''id'' \<mapsto> PStr ''c3'', ''battery'' \<mapsto> PStr ''ok''] (setup_platform True)) = [''c3'']"
    by (simp add: rflink_eval)
  ultimately show ?thesis by (simp add: setup_platform_def)
qed

end
